theory Spec2Isabelle
  imports Main
begin

section \<open>Python values and call outcomes\<close>

text \<open>
  Every handler in the modelled modules is \<^verbatim>\<open>except Exception as e\<close> and reads the
  exception only through \<^verbatim>\<open>str(e)\<close>, so an exception is modelled by its message. A call
  that may raise returns \<open>Inl\<close> of the exception, a call that returns gives \<open>Inr\<close> of
  its value. Exceptions outside the \<^verbatim>\<open>Exception\<close> hierarchy (\<^verbatim>\<open>KeyboardInterrupt\<close>,
  \<^verbatim>\<open>SystemExit\<close>) are raised by the interpreter, not by a collaborator, and are not
  modelled.
\<close>

datatype py_exception = PyException (message: string)

type_synonym 'a py = "py_exception + 'a"

text \<open>The values stored in the result dictionaries of \<^verbatim>\<open>query\<close>.\<close>

datatype pyval = PyStr string | PyInt int | PyList "string list"

type_synonym pydict = "string \<rightharpoonup> pyval"

subsection \<open>\<^verbatim>\<open>str.lower\<close> and the \<^verbatim>\<open>in\<close> test on strings\<close>

text \<open>
  \<^verbatim>\<open>str.lower\<close> on the ASCII range: the 26 capital letters map to their small letters,
  every other character is unchanged.
\<close>

definition ascii_lower :: "char \<Rightarrow> char" where
  "ascii_lower c =
     (case map_of (zip ''ABCDEFGHIJKLMNOPQRSTUVWXYZ'' ''abcdefghijklmnopqrstuvwxyz'') c of
        Some l \<Rightarrow> l
      | None \<Rightarrow> c)"

definition py_lower :: "string \<Rightarrow> string" where
  "py_lower s = map ascii_lower s"

text \<open>\<^verbatim>\<open>needle in haystack\<close>: the needle occurs as a contiguous substring.\<close>

fun py_in :: "string \<Rightarrow> string \<Rightarrow> bool" where
  "py_in needle [] = (needle = [])"
| "py_in needle (c # cs) = (take (length needle) (c # cs) = needle \<or> py_in needle cs)"

section \<open>The agent's intermediate steps\<close>

text \<open>
  \<^verbatim>\<open>query\<close> inspects each step by duck typing: \<^verbatim>\<open>len(step) >= 2\<close>, then
  \<^verbatim>\<open>hasattr(action, 'tool')\<close> and \<^verbatim>\<open>hasattr(action, 'tool_input')\<close> on \<^verbatim>\<open>step[0]\<close>, and
  \<^verbatim>\<open>action.tool.lower()\<close>. The model admits the shapes these guards anticipate and the
  objects on which the guards themselves fail.

  An attribute of the action object is missing, or holds a string, or holds an object of
  another type (named by its type, such as \<^verbatim>\<open>int\<close> or \<^verbatim>\<open>NoneType\<close>), which has no method
  \<^verbatim>\<open>lower\<close>.
\<close>

datatype attribute = Missing | StrAttr string | OtherAttr string

record agent_action =
  tool :: attribute
  tool_input :: "string option"

text \<open>
  An item of a step is an action object or any other object (the observation text), which
  has neither attribute. A step is a sequence of items, or an object that has no length
  (named by its type), on which \<^verbatim>\<open>len(step)\<close> raises.
\<close>

datatype step_item = ActionItem agent_action | OtherItem string

datatype step = Sized "step_item list" | Unsized string

text \<open>
  The value under \<^verbatim>\<open>intermediate_steps\<close> is a list of steps, or an object that cannot
  be iterated (named by its type, such as \<^verbatim>\<open>NoneType\<close>), on which the \<^verbatim>\<open>for\<close> loop raises.
\<close>

datatype steps_value = StepList "step list" | NotIterable string

text \<open>
  The dictionary returned by \<^verbatim>\<open>agent.invoke\<close>, read by \<^verbatim>\<open>query\<close> through
  \<^verbatim>\<open>result.get("output", ...)\<close> and \<^verbatim>\<open>result.get("intermediate_steps", [])\<close>: either key
  may be missing; when present, \<^verbatim>\<open>output\<close> is a string.
\<close>

record agent_result =
  agent_output :: "string option"
  intermediate_steps :: "steps_value option"

text \<open>
  What \<^verbatim>\<open>agent.invoke\<close> returns is such a dictionary, or an object that is not one (named
  by its type), on which \<^verbatim>\<open>result.get\<close> raises.
\<close>

datatype invoke_value = Dict agent_result | NotDict string

text \<open>An agent executor is used only through \<^verbatim>\<open>agent.invoke({"input": question})\<close>.\<close>

type_synonym agent_executor = "string \<Rightarrow> invoke_value py"

section \<open>\<^verbatim>\<open>SQLAgentManager\<close> (app/agent.py)\<close>

text \<open>
  The manager caches the executor in \<^verbatim>\<open>self._agent\<close>. The field \<^verbatim>\<open>self._toolkit\<close> is
  read only by \<^verbatim>\<open>get_toolkit_info\<close> and is left out.
\<close>

record sql_agent_manager =
  agent :: "agent_executor option"

text \<open>
  \<^verbatim>\<open>create_agent\<close>: when no executor is cached, lines 77 to 110 build one from the
  database, the model and the toolkit; \<open>build\<close> is the outcome of that block (built by
  external constructors), and its exception is logged and raised again. The result is the
  value or exception, paired with the manager after the call.
\<close>

definition create_agent ::
  "agent_executor py \<Rightarrow> sql_agent_manager \<Rightarrow> agent_executor py \<times> sql_agent_manager" where
  "create_agent build self =
     (case agent self of
        Some a \<Rightarrow> (Inr a, self)
      | None \<Rightarrow>
          (case build of
             Inl e \<Rightarrow> (Inl e, self)
           | Inr a \<Rightarrow> (Inr a, self\<lparr>agent := Some a\<rparr>)))"

text \<open>The exceptions that reading the result can raise: \<^verbatim>\<open>AttributeError\<close> from
  \<^verbatim>\<open>result.get\<close> and from \<^verbatim>\<open>action.tool.lower()\<close>, \<^verbatim>\<open>TypeError\<close> from the \<^verbatim>\<open>for\<close> loop
  and from \<^verbatim>\<open>len(step)\<close>.\<close>

definition no_attribute_error :: "string \<Rightarrow> string \<Rightarrow> py_exception" where
  "no_attribute_error ty name =
     PyException ([CHR 0x27] @ ty @ [CHR 0x27] @ '' object has no attribute ''
                  @ [CHR 0x27] @ name @ [CHR 0x27])"

definition not_iterable_error :: "string \<Rightarrow> py_exception" where
  "not_iterable_error ty =
     PyException ([CHR 0x27] @ ty @ [CHR 0x27] @ '' object is not iterable'')"

definition no_len_error :: "string \<Rightarrow> py_exception" where
  "no_len_error ty =
     PyException (''object of type '' @ [CHR 0x27] @ ty @ [CHR 0x27] @ '' has no len()'')"

text \<open>The body of the \<^verbatim>\<open>for step in intermediate_steps\<close> loop (lines 144 to 149): the
  list \<^verbatim>\<open>sql_queries\<close> after the step, or the exception the step raises.\<close>

definition extract_step :: "string list \<Rightarrow> step \<Rightarrow> string list py" where
  "extract_step sql_queries step =
     (case step of
        Unsized ty \<Rightarrow> Inl (no_len_error ty)
      | Sized items \<Rightarrow>
          if length items \<ge> 2 then
            (case items ! 0 of
               ActionItem action \<Rightarrow>
                 (case tool action of
                    Missing \<Rightarrow> Inr sql_queries
                  | OtherAttr ty \<Rightarrow> Inl (no_attribute_error ty ''lower'')
                  | StrAttr t \<Rightarrow>
                      if py_in ''sql'' (py_lower t) then
                        (case tool_input action of
                           Some i \<Rightarrow> Inr (sql_queries @ [i])
                         | None \<Rightarrow> Inr sql_queries)
                      else Inr sql_queries)
             | OtherItem _ \<Rightarrow> Inr sql_queries)
          else Inr sql_queries)"

text \<open>The loop itself, started with \<^verbatim>\<open>sql_queries = []\<close>; it ends at the first step that
  raises.\<close>

fun extract_loop :: "string list \<Rightarrow> step list \<Rightarrow> string list py" where
  "extract_loop sql_queries [] = Inr sql_queries"
| "extract_loop sql_queries (step # steps) =
     (case extract_step sql_queries step of
        Inl e \<Rightarrow> Inl e
      | Inr sql_queries' \<Rightarrow> extract_loop sql_queries' steps)"

definition extract_sql :: "step list \<Rightarrow> string list py" where
  "extract_sql steps = extract_loop [] steps"

text \<open>\<^verbatim>\<open>result.get("output", "No response generated")\<close> and
  \<^verbatim>\<open>result.get("intermediate_steps", [])\<close> (lines 139 and 140).\<close>

definition get_output :: "agent_result \<Rightarrow> string" where
  "get_output result =
     (case agent_output result of Some t \<Rightarrow> t | None \<Rightarrow> ''No response generated'')"

definition get_intermediate_steps :: "agent_result \<Rightarrow> steps_value" where
  "get_intermediate_steps result =
     (case intermediate_steps result of Some v \<Rightarrow> v | None \<Rightarrow> StepList [])"

text \<open>Lines 139 to 149: what \<^verbatim>\<open>query\<close> reads from the value \<^verbatim>\<open>agent.invoke\<close> returned,
  namely the output, the list \<^verbatim>\<open>sql_queries\<close> and the steps, or the exception raised on
  the way.\<close>

definition read_result :: "invoke_value \<Rightarrow> (string \<times> string list \<times> step list) py" where
  "read_result v =
     (case v of
        NotDict ty \<Rightarrow> Inl (no_attribute_error ty ''get'')
      | Dict result \<Rightarrow>
          (case get_intermediate_steps result of
             NotIterable ty \<Rightarrow> Inl (not_iterable_error ty)
           | StepList steps \<Rightarrow>
               (case extract_sql steps of
                  Inl e \<Rightarrow> Inl e
                | Inr sql_queries \<Rightarrow> Inr (get_output result, sql_queries, steps))))"

text \<open>The two dictionaries \<^verbatim>\<open>query\<close> returns (lines 151 to 157 and 161 to 165).\<close>

definition success_result :: "string \<Rightarrow> string \<Rightarrow> string list \<Rightarrow> step list \<Rightarrow> pydict" where
  "success_result question out sql_queries steps =
     [''status'' \<mapsto> PyStr ''success'',
      ''question'' \<mapsto> PyStr question,
      ''answer'' \<mapsto> PyStr out,
      ''sql_queries'' \<mapsto> PyList sql_queries,
      ''steps_count'' \<mapsto> PyInt (int (length steps))]"

definition error_result :: "string \<Rightarrow> py_exception \<Rightarrow> pydict" where
  "error_result question e =
     [''status'' \<mapsto> PyStr ''error'',
      ''question'' \<mapsto> PyStr question,
      ''error'' \<mapsto> PyStr (message e)]"

text \<open>The \<^verbatim>\<open>try\<close> block of \<^verbatim>\<open>query\<close> (lines 131 to 157). It raises where
  \<^verbatim>\<open>create_agent\<close>, \<^verbatim>\<open>agent.invoke\<close> or the reading of the result raises.\<close>

definition query_try :: "agent_executor py \<Rightarrow> sql_agent_manager \<Rightarrow> string \<Rightarrow> pydict py \<times> sql_agent_manager" where
  "query_try build self question =
     (case create_agent build self of
        (Inl e, self') \<Rightarrow> (Inl e, self')
      | (Inr a, self') \<Rightarrow>
          (case a question of
             Inl e \<Rightarrow> (Inl e, self')
           | Inr result \<Rightarrow>
               (case read_result result of
                  Inl e \<Rightarrow> (Inl e, self')
                | Inr (out, sql_queries, steps) \<Rightarrow>
                    (Inr (success_result question out sql_queries steps), self'))))"

text \<open>\<^verbatim>\<open>query\<close>: the block under \<^verbatim>\<open>except Exception as e\<close> (lines 159 to 165).\<close>

definition query :: "agent_executor py \<Rightarrow> sql_agent_manager \<Rightarrow> string \<Rightarrow> pydict py \<times> sql_agent_manager" where
  "query build self question =
     (case query_try build self question of
        (Inl e, self') \<Rightarrow> (Inr (error_result question e), self')
      | (Inr d, self') \<Rightarrow> (Inr d, self'))"

text \<open>
  \<^verbatim>\<open>SQLAgentManagerAWS\<close> (app/agent_aws.py) has the same \<^verbatim>\<open>create_agent\<close> caching and,
  line for line, the same \<^verbatim>\<open>query\<close> (lines 139 to 174); only the configuration object
  and the collaborators behind \<open>build\<close> differ.
\<close>

definition create_agent_aws ::
  "agent_executor py \<Rightarrow> sql_agent_manager \<Rightarrow> agent_executor py \<times> sql_agent_manager" where
  "create_agent_aws build self =
     (case agent self of
        Some a \<Rightarrow> (Inr a, self)
      | None \<Rightarrow>
          (case build of
             Inl e \<Rightarrow> (Inl e, self)
           | Inr a \<Rightarrow> (Inr a, self\<lparr>agent := Some a\<rparr>)))"

definition query_try_aws :: "agent_executor py \<Rightarrow> sql_agent_manager \<Rightarrow> string \<Rightarrow> pydict py \<times> sql_agent_manager" where
  "query_try_aws build self question =
     (case create_agent_aws build self of
        (Inl e, self') \<Rightarrow> (Inl e, self')
      | (Inr a, self') \<Rightarrow>
          (case a question of
             Inl e \<Rightarrow> (Inl e, self')
           | Inr result \<Rightarrow>
               (case read_result result of
                  Inl e \<Rightarrow> (Inl e, self')
                | Inr (out, sql_queries, steps) \<Rightarrow>
                    (Inr (success_result question out sql_queries steps), self'))))"

definition query_aws :: "agent_executor py \<Rightarrow> sql_agent_manager \<Rightarrow> string \<Rightarrow> pydict py \<times> sql_agent_manager" where
  "query_aws build self question =
     (case query_try_aws build self question of
        (Inl e, self') \<Rightarrow> (Inr (error_result question e), self')
      | (Inr d, self') \<Rightarrow> (Inr d, self'))"

section \<open>The database wrappers\<close>

text \<open>
  The LangChain \<^verbatim>\<open>SQLDatabase\<close> handle is external; the wrappers use three of its methods,
  each of which may raise.
\<close>

record sql_database =
  run :: "string \<Rightarrow> string py"
  get_table_info_of :: "string list option \<Rightarrow> string py"
  get_usable_table_names :: "string list py"

subsection \<open>\<^verbatim>\<open>BigQueryDatabase\<close> (app/database.py)\<close>

text \<open>
  The wrapper caches the handle in \<^verbatim>\<open>self._db\<close>. \<open>connect\<close> is the outcome of
  \<^verbatim>\<open>create_engine\<close> followed by \<^verbatim>\<open>SQLDatabase(...)\<close> (lines 37 to 49); a failure is logged
  and raised again.
\<close>

record bigquery_database =
  db :: "sql_database option"

definition get_database ::
  "sql_database py \<Rightarrow> bigquery_database \<Rightarrow> sql_database py \<times> bigquery_database" where
  "get_database connect self =
     (case db self of
        Some d \<Rightarrow> (Inr d, self)
      | None \<Rightarrow>
          (case connect of
             Inl e \<Rightarrow> (Inl e, self)
           | Inr d \<Rightarrow> (Inr d, self\<lparr>db := Some d\<rparr>)))"

definition get_table_info ::
  "sql_database py \<Rightarrow> bigquery_database \<Rightarrow> string list option \<Rightarrow> string py \<times> bigquery_database" where
  "get_table_info connect self table_names =
     (case get_database connect self of
        (Inl e, self') \<Rightarrow> (Inr (''Error retrieving table information: '' @ message e), self')
      | (Inr d, self') \<Rightarrow>
          (case get_table_info_of d table_names of
             Inl e \<Rightarrow> (Inr (''Error retrieving table information: '' @ message e), self')
           | Inr text \<Rightarrow> (Inr text, self')))"


subsection \<open>\<^verbatim>\<open>RedshiftDatabase\<close> (app/database_aws.py)\<close>

text \<open>\<^verbatim>\<open>str\<close> of an integer, as the f-strings format the port.\<close>

definition digit_char :: "nat \<Rightarrow> char" where
  "digit_char n = ''0123456789'' ! (n mod 10)"

function str_nat :: "nat \<Rightarrow> string" where
  "str_nat n = (if n < 10 then [digit_char n] else str_nat (n div 10) @ [digit_char n])"
  by pat_completeness auto
termination
  by (relation "measure id") auto

definition py_str_int :: "int \<Rightarrow> string" where
  "py_str_int i = (if i < 0 then CHR ''-'' # str_nat (nat (- i)) else str_nat (nat i))"

text \<open>
  The boto3 Redshift client is external: \<^verbatim>\<open>get_cluster_credentials\<close> raises or returns a
  response dictionary. The configuration values and the external constructors the wrapper
  reaches (\<^verbatim>\<open>boto3.client\<close>, and \<^verbatim>\<open>create_engine\<close> followed by \<^verbatim>\<open>SQLDatabase(...)\<close> on a
  connection URI) form the environment of a call.
\<close>

record redshift_client =
  get_cluster_credentials :: "(string \<rightharpoonup> string) py"

record aws_environment =
  REDSHIFT_USE_IAM :: bool
  REDSHIFT_USER :: string
  REDSHIFT_PASSWORD :: string
  REDSHIFT_HOST :: string
  REDSHIFT_PORT :: int
  REDSHIFT_DATABASE :: string
  boto3_client :: "redshift_client py"
  connect_uri :: "string \<Rightarrow> sql_database py"

record redshift_database =
  db_aws :: "sql_database option"
  redshift_client_of :: "redshift_client option"
  connection_uri :: "string option"

text \<open>\<^verbatim>\<open>ConfigAWS.get_redshift_uri\<close> (app/config_aws.py, lines 94 to 101).\<close>

definition get_redshift_uri :: "aws_environment \<Rightarrow> string" where
  "get_redshift_uri env =
     (if REDSHIFT_USE_IAM env then
        ''postgresql+psycopg2://'' @ REDSHIFT_USER env @ ''@'' @ REDSHIFT_HOST env @ '':''
          @ py_str_int (REDSHIFT_PORT env) @ ''/'' @ REDSHIFT_DATABASE env
      else
        ''postgresql+psycopg2://'' @ REDSHIFT_USER env @ '':'' @ REDSHIFT_PASSWORD env @ ''@''
          @ REDSHIFT_HOST env @ '':'' @ py_str_int (REDSHIFT_PORT env) @ ''/''
          @ REDSHIFT_DATABASE env)"

text \<open>
  \<^verbatim>\<open>_get_iam_credentials\<close>: the client is created on first use and kept; a missing key of
  the response is a \<^verbatim>\<open>KeyError\<close>, whose \<^verbatim>\<open>str\<close> is the quoted key. Every exception leaves the
  method (\<^verbatim>\<open>ClientError\<close> is logged first).
\<close>

definition get_iam_credentials ::
  "aws_environment \<Rightarrow> redshift_database \<Rightarrow> (string \<times> string) py \<times> redshift_database" where
  "get_iam_credentials env self =
     (case (case redshift_client_of self of
              Some c \<Rightarrow> (Inr c, self)
            | None \<Rightarrow>
                (case boto3_client env of
                   Inl e \<Rightarrow> (Inl e, self)
                 | Inr c \<Rightarrow> (Inr c, self\<lparr>redshift_client_of := Some c\<rparr>))) of
        (Inl e, self') \<Rightarrow> (Inl e, self')
      | (Inr c, self') \<Rightarrow>
          (case get_cluster_credentials c of
             Inl e \<Rightarrow> (Inl e, self')
           | Inr response \<Rightarrow>
               (case response ''DbUser'' of
                  None \<Rightarrow> (Inl (PyException (CHR 0x27 # ''DbUser'' @ [CHR 0x27])), self')
                | Some user \<Rightarrow>
                    (case response ''DbPassword'' of
                       None \<Rightarrow> (Inl (PyException (CHR 0x27 # ''DbPassword'' @ [CHR 0x27])), self')
                     | Some password \<Rightarrow> (Inr (user, password), self')))))"

definition build_connection_uri ::
  "aws_environment \<Rightarrow> redshift_database \<Rightarrow> string py \<times> redshift_database" where
  "build_connection_uri env self =
     (if REDSHIFT_USE_IAM env then
        (case get_iam_credentials env self of
           (Inl e, self') \<Rightarrow> (Inl e, self')
         | (Inr (user, password), self') \<Rightarrow>
             (Inr (''postgresql+psycopg2://'' @ user @ '':'' @ password @ ''@''
                   @ REDSHIFT_HOST env @ '':'' @ py_str_int (REDSHIFT_PORT env) @ ''/''
                   @ REDSHIFT_DATABASE env), self'))
      else (Inr (get_redshift_uri env), self))"

definition get_database_aws ::
  "aws_environment \<Rightarrow> redshift_database \<Rightarrow> sql_database py \<times> redshift_database" where
  "get_database_aws env self =
     (case db_aws self of
        Some d \<Rightarrow> (Inr d, self)
      | None \<Rightarrow>
          (case build_connection_uri env self of
             (Inl e, self') \<Rightarrow> (Inl e, self')
           | (Inr uri, self') \<Rightarrow>
               (case connect_uri env uri of
                  Inl e \<Rightarrow> (Inl e, self'\<lparr>connection_uri := Some uri\<rparr>)
                | Inr d \<Rightarrow> (Inr d, self'\<lparr>connection_uri := Some uri, db_aws := Some d\<rparr>))))"

definition get_table_info_aws ::
  "aws_environment \<Rightarrow> redshift_database \<Rightarrow> string list option \<Rightarrow> string py \<times> redshift_database" where
  "get_table_info_aws env self table_names =
     (case get_database_aws env self of
        (Inl e, self') \<Rightarrow> (Inr (''Error retrieving table information: '' @ message e), self')
      | (Inr d, self') \<Rightarrow>
          (case get_table_info_of d table_names of
             Inl e \<Rightarrow> (Inr (''Error retrieving table information: '' @ message e), self')
           | Inr text \<Rightarrow> (Inr text, self')))"


section \<open>Configuration (app/config.py, app/config_aws.py)\<close>

text \<open>
  \<open>environ\<close> is \<^verbatim>\<open>os.environ\<close> as the class bodies read it, after \<^verbatim>\<open>load_dotenv()\<close>.
  \<^verbatim>\<open>os.getenv(key, default)\<close> gives the default when the key is not set.
\<close>

type_synonym environ = "string \<rightharpoonup> string"

definition getenv :: "environ \<Rightarrow> string \<Rightarrow> string \<Rightarrow> string" where
  "getenv env key dflt = (case env key of Some v \<Rightarrow> v | None \<Rightarrow> dflt)"

text \<open>
  \<^verbatim>\<open>repr\<close> of an ASCII string, which the message of \<^verbatim>\<open>ValueError\<close> shows: double quotes
  when the string holds an apostrophe and no double quote, apostrophes otherwise; the chosen
  quote and the backslash are escaped with a backslash, tab, newline and carriage return are
  written \<^verbatim>\<open>\t\<close>, \<^verbatim>\<open>\n\<close> and \<^verbatim>\<open>\r\<close>, and the other control characters as \<^verbatim>\<open>\x\<close> followed by
  two hexadecimal digits. Characters beyond ASCII are copied as they are.
\<close>

definition hex_digit :: "nat \<Rightarrow> char" where
  "hex_digit n = ''0123456789abcdef'' ! (n mod 16)"

definition repr_char :: "char \<Rightarrow> char \<Rightarrow> string" where
  "repr_char quote c =
     (if c = quote \<or> c = CHR 0x5C then [CHR 0x5C, c]
      else if c = CHR 0x09 then [CHR 0x5C, CHR ''t'']
      else if c = CHR 0x0A then [CHR 0x5C, CHR ''n'']
      else if c = CHR 0x0D then [CHR 0x5C, CHR ''r'']
      else if (of_char c :: nat) < 32 \<or> (of_char c :: nat) = 127 then
        [CHR 0x5C, CHR ''x'', hex_digit ((of_char c :: nat) div 16), hex_digit (of_char c)]
      else [c])"

definition py_repr :: "string \<Rightarrow> string" where
  "py_repr s =
     (let quote = (if CHR 0x27 \<in> set s \<and> CHR 0x22 \<notin> set s then CHR 0x22 else CHR 0x27)
      in [quote] @ concat (map (repr_char quote) s) @ [quote])"

text \<open>
  \<^verbatim>\<open>int(s)\<close> on an ASCII string, in the order of CPython 3.12: leading whitespace (space,
  tab, newline, vertical tab, form feed, carriage return) is skipped, one sign is allowed,
  then comes a run of decimal digits with single underscores between digits, then only
  whitespace. Anything else raises \<^verbatim>\<open>ValueError\<close> with the \<^verbatim>\<open>repr\<close> of the string, cut at
  200 characters. A well-formed literal of more than 4300 digits (the default of
  \<^verbatim>\<open>sys.set_int_max_str_digits\<close>) raises \<^verbatim>\<open>ValueError\<close> as well.
\<close>

definition py_isspace :: "char \<Rightarrow> bool" where
  "py_isspace c = (c \<in> set [CHR '' '', CHR 0x09, CHR 0x0A, CHR 0x0B, CHR 0x0C, CHR 0x0D])"

definition digit_value :: "char \<Rightarrow> int option" where
  "digit_value c = map_of (zip ''0123456789'' [0, 1, 2, 3, 4, 5, 6, 7, 8, 9]) c"

definition in_digit_run :: "char \<Rightarrow> bool" where
  "in_digit_run c = (digit_value c \<noteq> None \<or> c = CHR ''_'')"

text \<open>A double underscore, or an underscore at the end of the run (\<open>prev\<close> is the
  character before).\<close>

fun bad_underscore :: "char \<Rightarrow> string \<Rightarrow> bool" where
  "bad_underscore prev [] = (prev = CHR ''_'')"
| "bad_underscore prev (c # cs) = ((c = CHR ''_'' \<and> prev = CHR ''_'') \<or> bad_underscore c cs)"

fun digits_to_int :: "int \<Rightarrow> string \<Rightarrow> int" where
  "digits_to_int acc [] = acc"
| "digits_to_int acc (c # cs) =
     (case digit_value c of
        Some v \<Rightarrow> digits_to_int (10 * acc + v) cs
      | None \<Rightarrow> digits_to_int acc cs)"

definition value_error :: "string \<Rightarrow> py_exception" where
  "value_error s =
     PyException (''invalid literal for int() with base 10: '' @ take 200 (py_repr s))"

definition digits_limit_error :: "nat \<Rightarrow> py_exception" where
  "digits_limit_error n =
     PyException (''Exceeds the limit (4300 digits) for integer string conversion: value has ''
                  @ py_str_int (int n)
                  @ '' digits; use sys.set_int_max_str_digits() to increase the limit'')"

definition py_int :: "string \<Rightarrow> int py" where
  "py_int s =
     (let t = dropWhile py_isspace s;
          (sign, body) =
            (case t of
               [] \<Rightarrow> (1, t)
             | c # cs \<Rightarrow>
                 if c = CHR ''-'' then (- 1, cs)
                 else if c = CHR ''+'' then (1, cs)
                 else (1, t));
          digit_run = takeWhile in_digit_run body;
          rest = dropWhile in_digit_run body;
          digits = filter (\<lambda>c. c \<noteq> CHR ''_'') digit_run
      in case digit_run of
           [] \<Rightarrow> Inl (value_error s)
         | c # cs \<Rightarrow>
             if c = CHR ''_'' then Inl (value_error s)
             else if bad_underscore c cs then Inl (value_error s)
             else if dropWhile py_isspace rest \<noteq> [] then Inl (value_error s)
             else if 4300 < length digits then Inl (digits_limit_error (length digits))
             else Inr (sign * digits_to_int 0 digits))"

text \<open>The three attributes of \<^verbatim>\<open>Config\<close> under "SQL Agent Configuration" (lines 45 to 47).\<close>

definition SQL_AGENT_MAX_ITERATIONS :: "environ \<Rightarrow> int py" where
  "SQL_AGENT_MAX_ITERATIONS env = py_int (getenv env ''SQL_AGENT_MAX_ITERATIONS'' ''15'')"

definition SQL_AGENT_MAX_EXECUTION_TIME :: "environ \<Rightarrow> int py" where
  "SQL_AGENT_MAX_EXECUTION_TIME env = py_int (getenv env ''SQL_AGENT_MAX_EXECUTION_TIME'' ''100'')"

definition SQL_TOP_K_RESULTS :: "environ \<Rightarrow> int py" where
  "SQL_TOP_K_RESULTS env = py_int (getenv env ''SQL_TOP_K_RESULTS'' ''10'')"

text \<open>The same three attributes of \<^verbatim>\<open>ConfigAWS\<close> (lines 54 to 56).\<close>

definition SQL_AGENT_MAX_ITERATIONS_aws :: "environ \<Rightarrow> int py" where
  "SQL_AGENT_MAX_ITERATIONS_aws env = py_int (getenv env ''SQL_AGENT_MAX_ITERATIONS'' ''15'')"

definition SQL_AGENT_MAX_EXECUTION_TIME_aws :: "environ \<Rightarrow> int py" where
  "SQL_AGENT_MAX_EXECUTION_TIME_aws env =
     py_int (getenv env ''SQL_AGENT_MAX_EXECUTION_TIME'' ''100'')"

definition SQL_TOP_K_RESULTS_aws :: "environ \<Rightarrow> int py" where
  "SQL_TOP_K_RESULTS_aws env = py_int (getenv env ''SQL_TOP_K_RESULTS'' ''10'')"

section \<open>The reasoning loop behind \<^verbatim>\<open>agent.invoke\<close>\<close>

text \<open>
  \<^verbatim>\<open>create_agent\<close> obtains its executor from \<^verbatim>\<open>create_sql_agent\<close>, passing
  \<^verbatim>\<open>max_iterations\<close> and \<^verbatim>\<open>max_execution_time\<close> from the configuration; the loop that the
  executor runs is library code and is not part of the repository's sources. What the
  specification says about it (sections 3, 4.1, 4.2 and 7) is modelled here.
\<close>

text \<open>Modelled from the spec: the result of parsing the completion's output in PLANNING
  (section 4.2): an action proposal with optional reasoning text, a final answer, or output
  of neither shape. The parser's code is missing from the sources.\<close>

datatype plan =
  ProposeAction "string option" string string
| FinalAnswer string
| Unparseable

text \<open>Modelled from the spec: the terminal outcome of a trajectory (section 3):
  \<^verbatim>\<open>final_answer\<close> with text, or \<^verbatim>\<open>aborted\<close> with a reason (step-limit, time-limit or
  unparseable-output). The loop's code is missing from the sources.\<close>

datatype abort_reason = StepLimit | TimeLimit | UnparseableOutput

datatype terminal_outcome = Final string | Aborted abort_reason

text \<open>Modelled from the spec: one Thought-Action-Observation step (section 3): optional
  reasoning text, the chosen action name with its input, the observation text. A step that
  only carries the corrective instruction after a parse failure has no chosen action. The
  loop's code is missing from the sources.\<close>

record loop_step =
  thought :: "string option"
  action :: "(string \<times> string) option"
  observation :: string

text \<open>Modelled from the spec: a trajectory (section 3), the ordered steps and one terminal
  outcome. The loop's code is missing from the sources.\<close>

record trajectory =
  steps :: "loop_step list"
  outcome :: terminal_outcome

text \<open>Modelled from the spec: the action catalog (section 4.1), each entry a name, a
  one-line description and the action itself, which may raise. The catalog's code is missing
  from the sources.\<close>

type_synonym action_catalog = "(string \<times> string \<times> (string \<Rightarrow> string py)) list"

text \<open>Modelled from the spec: \<^verbatim>\<open>list_actions\<close> of section 4.1, the names and descriptions
  of the catalog. Its code is missing from the sources.\<close>

definition list_actions :: "action_catalog \<Rightarrow> (string \<times> string) list" where
  "list_actions cat = map (\<lambda>(name, description, act). (name, description)) cat"

text \<open>Modelled from the spec: \<^verbatim>\<open>invoke\<close> of section 4.1, which fails with
  \<^verbatim>\<open>UnknownActionError\<close> on an unknown name. Its code is missing from the sources.\<close>

definition invoke :: "action_catalog \<Rightarrow> string \<Rightarrow> string \<Rightarrow> string py" where
  "invoke cat name arg =
     (case map_of cat name of
        None \<Rightarrow> Inl (PyException (''UnknownActionError: '' @ name))
      | Some (description, act) \<Rightarrow> act arg)"

text \<open>Modelled from the spec: the corrective instruction injected after a parse failure
  (section 4.2), "invalid format, reinterpret with tool names: ..." followed by the names of
  the catalog. The loop's code is missing from the sources.\<close>

definition corrective_instruction :: "action_catalog \<Rightarrow> string" where
  "corrective_instruction cat =
     ''invalid format, reinterpret with tool names: ''
       @ concat (map (\<lambda>(name, description). name @ '' '') (list_actions cat))"

text \<open>Modelled from the spec: what the loop takes from its surroundings (sections 4.2 and
  6): the briefing, the catalog, the completion capability (a prompt to a text; it raises when
  the collaborator is unavailable), the assembly of the prompt from briefing, catalog
  descriptions, trajectory so far and question, the parser, the wall-clock seconds elapsed at
  the moment the loop checks its budget with a given trajectory, and the best available answer
  on abort ("the last Observation, or a generic message": the choice is left open, so it is a
  parameter). The code of all of them is missing from the sources.\<close>

record loop_env =
  briefing :: string
  catalog :: action_catalog
  complete :: "string \<Rightarrow> string py"
  build_prompt :: "string \<Rightarrow> (string \<times> string) list \<Rightarrow> loop_step list \<Rightarrow> string \<Rightarrow> string"
  parse :: "string \<Rightarrow> plan"
  elapsed :: "loop_step list \<Rightarrow> int"
  best_available_answer :: "loop_step list \<Rightarrow> string"

text \<open>Modelled from the spec: the two budgets of section 6, as the integers that
  \<^verbatim>\<open>create_agent\<close> passes on from \<^verbatim>\<open>config.SQL_AGENT_MAX_ITERATIONS\<close> and
  \<^verbatim>\<open>config.SQL_AGENT_MAX_EXECUTION_TIME\<close>. The loop's code is missing from the sources.\<close>

record loop_config =
  max_iterations :: int
  max_execution_time :: int

text \<open>Modelled from the spec: the state machine of section 4.2. ABORTED is entered when the
  steps taken reach \<open>max_iterations\<close> or the elapsed time reaches
  \<open>max_execution_time\<close>; PLANNING asks the completion capability and parses its output; a
  final answer ends the trajectory; a proposed action is invoked in ACTING, an exception of
  the action becoming the observation; a parse failure appends the corrective instruction as
  a synthetic observation and consumes one step; OBSERVING appends the step and returns to
  PLANNING. An exception of the completion capability leaves the loop (section 7,
  collaborator unavailable). The loop's code is missing from the sources.\<close>

function reasoning_loop ::
  "loop_config \<Rightarrow> loop_env \<Rightarrow> string \<Rightarrow> loop_step list \<Rightarrow> trajectory py" where
  "reasoning_loop cfg env question taken =
     (if max_iterations cfg \<le> int (length taken) then
        Inr \<lparr>steps = taken, outcome = Aborted StepLimit\<rparr>
      else if max_execution_time cfg \<le> elapsed env taken then
        Inr \<lparr>steps = taken, outcome = Aborted TimeLimit\<rparr>
      else
        (case complete env
                (build_prompt env (briefing env) (list_actions (catalog env)) taken question) of
           Inl e \<Rightarrow> Inl e
         | Inr text \<Rightarrow>
             (case parse env text of
                FinalAnswer a \<Rightarrow> Inr \<lparr>steps = taken, outcome = Final a\<rparr>
              | ProposeAction th name arg \<Rightarrow>
                  reasoning_loop cfg env question
                    (taken @ [\<lparr>thought = th, action = Some (name, arg),
                               observation =
                                 (case invoke (catalog env) name arg of
                                    Inl e \<Rightarrow> message e
                                  | Inr obs \<Rightarrow> obs)\<rparr>])
              | Unparseable \<Rightarrow>
                  reasoning_loop cfg env question
                    (taken @ [\<lparr>thought = None, action = None,
                               observation = corrective_instruction (catalog env)\<rparr>]))))"
  by pat_completeness auto
termination
  by (relation "measure (\<lambda>(cfg, env, question, taken). nat (max_iterations cfg - int (length taken)))")
     auto

text \<open>Modelled from the spec: the answer text of a finished trajectory (section 4.2): the
  final answer, or on abort the best available answer. The loop's code is missing from the
  sources.\<close>

definition answer_text :: "loop_env \<Rightarrow> trajectory \<Rightarrow> string" where
  "answer_text env t =
     (case outcome t of
        Final a \<Rightarrow> a
      | Aborted r \<Rightarrow> best_available_answer env (steps t))"

text \<open>Modelled from the spec: a step as \<^verbatim>\<open>query\<close> reads it, the action object first and
  the observation second; the action object of a step without a chosen action has neither
  attribute. The executor's code is missing from the sources.\<close>

definition to_step :: "loop_step \<Rightarrow> step" where
  "to_step s =
     Sized
       [ActionItem
          (case action s of
             Some (name, arg) \<Rightarrow> \<lparr>tool = StrAttr name, tool_input = Some arg\<rparr>
           | None \<Rightarrow> \<lparr>tool = Missing, tool_input = None\<rparr>),
        OtherItem (observation s)]"

text \<open>Modelled from the spec: the executor as the facade drives it (section 2, data
  flow): one run of the loop on the question, returning the answer text as \<^verbatim>\<open>output\<close> and
  the steps as \<^verbatim>\<open>intermediate_steps\<close> (\<^verbatim>\<open>return_intermediate_steps\<close> is set by
  \<^verbatim>\<open>create_agent\<close>). The executor's code is missing from the sources.\<close>

definition loop_executor :: "loop_config \<Rightarrow> loop_env \<Rightarrow> agent_executor" where
  "loop_executor cfg env question =
     (case reasoning_loop cfg env question [] of
        Inl e \<Rightarrow> Inl e
      | Inr t \<Rightarrow>
          Inr (Dict \<lparr>agent_output = Some (answer_text env t),
                     intermediate_steps = Some (StepList (map to_step (steps t)))\<rparr>))"

section \<open>Reading a result, and the inputs used as examples\<close>

text \<open>The value under a key of the dictionary a call returned (\<open>None\<close> when the key is
  absent, or when the call raised).\<close>

definition result_field :: "pydict py \<times> 's \<Rightarrow> string \<Rightarrow> pyval option" where
  "result_field r key = (case fst r of Inl e \<Rightarrow> None | Inr d \<Rightarrow> d key)"

text \<open>
  \<^verbatim>\<open>SQLDatabaseToolkit\<close>, which \<^verbatim>\<open>create_agent\<close> hands to the agent, names its tools
  \<^verbatim>\<open>sql_db_query\<close>, \<^verbatim>\<open>sql_db_schema\<close>, \<^verbatim>\<open>sql_db_list_tables\<close> and
  \<^verbatim>\<open>sql_db_query_checker\<close>. The trajectory of a question answered by listing the tables,
  describing one and running one query:
\<close>

definition list_tables_step :: step where
  "list_tables_step =
     Sized [ActionItem \<lparr>tool = StrAttr ''sql_db_list_tables'', tool_input = Some ''''\<rparr>,
            OtherItem ''vehicles, dealerships'']"

definition schema_step :: step where
  "schema_step =
     Sized [ActionItem \<lparr>tool = StrAttr ''sql_db_schema'', tool_input = Some ''vehicles''\<rparr>,
            OtherItem ''CREATE TABLE vehicles (vehicle_id INT64)'']"

definition query_step :: step where
  "query_step =
     Sized [ActionItem \<lparr>tool = StrAttr ''sql_db_query'',
                         tool_input = Some ''SELECT COUNT(*) FROM vehicles''\<rparr>,
            OtherItem ''[(42,)]'']"


definition counting_agent :: agent_executor where
  "counting_agent question =
     Inr (Dict \<lparr>agent_output = Some ''There are 42 vehicles.'',
                intermediate_steps = Some (StepList [list_tables_step, schema_step, query_step])\<rparr>)"

definition failing_agent :: agent_executor where
  "failing_agent question = Inl (PyException ''connection refused'')"



text \<open>The fake collaborators of end-to-end scenario C of the specification: a completion
  capability whose every output proposes an action that is not in the catalog, with no time
  passing; and a budget of three steps.\<close>

definition invalid_action_env :: loop_env where
  "invalid_action_env =
     \<lparr>briefing = ''You are an expert automotive sales analyst'',
      catalog = [(''sql_db_query'', ''Execute a SQL query'', (\<lambda>arg. Inr ''[(42,)]''))],
      complete = (\<lambda>prompt. Inr ''Action: drop_everything''),
      build_prompt = (\<lambda>brief actions taken question. question),
      parse = (\<lambda>text. ProposeAction None ''drop_everything'' ''''),
      elapsed = (\<lambda>taken. 0),
      best_available_answer = (\<lambda>taken. ''could not determine an answer'')\<rparr>"


definition three_steps :: loop_config where
  "three_steps = \<lparr>max_iterations = 3, max_execution_time = 100\<rparr>"

text \<open>A configuration whose step budget is negative, as \<^verbatim>\<open>SQL_AGENT_MAX_ITERATIONS=-1\<close>
  in the environment gives it.\<close>

definition negative_budget :: loop_config where
  "negative_budget = \<lparr>max_iterations = - 1, max_execution_time = 100\<rparr>"

text \<open>The step scenario C appends at every turn: the unknown action's error is the
  observation.\<close>

definition invalid_step :: loop_step where
  "invalid_step =
     \<lparr>thought = None, action = Some (''drop_everything'', ''''),
      observation = ''UnknownActionError: drop_everything''\<rparr>"

section \<open>Properties of the trace extraction\<close>

lemma extract_step_from_empty:
  "extract_step acc s = (case extract_step [] s of Inl e \<Rightarrow> Inl e | Inr r \<Rightarrow> Inr (acc @ r))"
  by (simp add: extract_step_def split: step.splits step_item.splits attribute.splits
      option.splits)

lemma extract_loop_from_empty:
  "extract_loop acc ss = (case extract_loop [] ss of Inl e \<Rightarrow> Inl e | Inr r \<Rightarrow> Inr (acc @ r))"
proof (induction ss arbitrary: acc)
  case Nil
  show ?case by simp
next
  case (Cons s ss)
  show ?case
  proof (cases "extract_step [] s")
    case (Inl e)
    then show ?thesis by (simp add: extract_step_from_empty [of acc])
  next
    case (Inr r)
    then have left: "extract_loop acc (s # ss) = extract_loop (acc @ r) ss"
      by (simp add: extract_step_from_empty [of acc])
    from Inr have right: "extract_loop [] (s # ss) = extract_loop r ss"
      by simp
    show ?thesis
    proof (cases "extract_loop [] ss")
      case (Inl e)
      with Cons.IH [of "acc @ r"] Cons.IH [of r] left right show ?thesis by simp
    next
      case (Inr t)
      with Cons.IH [of "acc @ r"] Cons.IH [of r] left right show ?thesis by simp
    qed
  qed
qed

lemma extract_sql_Nil: "extract_sql [] = Inr []"
  by (simp add: extract_sql_def)

lemma extract_loop_append:
  "extract_loop acc (xs @ ys)
   = (case extract_loop acc xs of Inl e \<Rightarrow> Inl e | Inr acc' \<Rightarrow> extract_loop acc' ys)"
  by (induction xs arbitrary: acc) (simp_all split: sum.splits)

lemma extract_sql_in_order:
  "extract_sql (xs @ ys)
   = (case extract_sql xs of
        Inl e \<Rightarrow> Inl e
      | Inr a \<Rightarrow> (case extract_sql ys of Inl e \<Rightarrow> Inl e | Inr b \<Rightarrow> Inr (a @ b)))"
proof (cases "extract_loop [] xs")
  case (Inl e)
  then show ?thesis by (simp add: extract_sql_def extract_loop_append)
next
  case (Inr a)
  with extract_loop_from_empty [of a ys] show ?thesis
    by (simp add: extract_sql_def extract_loop_append)
qed

lemma length_extract_step: "extract_step [] s = Inr r \<Longrightarrow> length r \<le> 1"
  by (auto simp add: extract_step_def
      split: step.splits step_item.splits attribute.splits option.splits if_splits)

lemma length_extract_loop: "extract_loop [] ss = Inr l \<Longrightarrow> length l \<le> length ss"
proof (induction ss arbitrary: l)
  case Nil
  then show ?case by simp
next
  case (Cons s ss)
  from Cons.prems obtain r where r: "extract_step [] s = Inr r"
    by (cases "extract_step [] s") simp_all
  with Cons.prems have "extract_loop r ss = Inr l" by simp
  then obtain t where t: "extract_loop [] ss = Inr t" and l: "l = r @ t"
    by (subst (asm) extract_loop_from_empty) (auto split: sum.splits)
  from Cons.IH [OF t] length_extract_step [OF r] l show ?case by simp
qed

lemma length_extract_sql: "extract_sql ss = Inr l \<Longrightarrow> length l \<le> length ss"
  unfolding extract_sql_def by (rule length_extract_loop)

text \<open>The loop raises exactly when one of the steps does.\<close>

lemma extract_loop_raises: "isl (extract_loop acc ss) \<longleftrightarrow> (\<exists>s \<in> set ss. isl (extract_step [] s))"
proof (induction ss arbitrary: acc)
  case Nil
  show ?case by simp
next
  case (Cons s ss)
  show ?case
    by (cases "extract_step [] s")
       (simp_all add: extract_step_from_empty [of acc] Cons.IH)
qed

section \<open>The results of \<^verbatim>\<open>query\<close>\<close>

lemma query_aws_eq: "query_aws build self q = query build self q"
  by (simp add: query_aws_def query_def query_try_aws_def query_try_def
      create_agent_aws_def create_agent_def)

lemma query_build_raises:
  "agent self = None \<Longrightarrow> build = Inl e \<Longrightarrow> fst (query build self q) = Inr (error_result q e)"
  by (simp add: query_def query_try_def create_agent_def)

lemma query_invoke_raises:
  "fst (create_agent build self) = Inr a \<Longrightarrow> a q = Inl e \<Longrightarrow>
   fst (query build self q) = Inr (error_result q e)"
  by (auto simp add: query_def query_try_def split: prod.splits sum.splits)

lemma query_read_raises:
  "fst (create_agent build self) = Inr a \<Longrightarrow> a q = Inr v \<Longrightarrow> read_result v = Inl e \<Longrightarrow>
   fst (query build self q) = Inr (error_result q e)"
  by (auto simp add: query_def query_try_def split: prod.splits sum.splits)

lemma query_invoke_returns:
  "fst (create_agent build self) = Inr a \<Longrightarrow> a q = Inr v \<Longrightarrow>
   read_result v = Inr (out, l, ss) \<Longrightarrow>
   fst (query build self q) = Inr (success_result q out l ss)"
  by (auto simp add: query_def query_try_def split: prod.splits sum.splits)

lemma read_result_length: "read_result v = Inr (out, l, ss) \<Longrightarrow> length l \<le> length ss"
  by (auto simp add: read_result_def length_extract_sql
      split: invoke_value.splits steps_value.splits sum.splits)

lemma query_shape:
  "(\<exists>e. fst (query build self q) = Inr (error_result q e))
   \<or> (\<exists>out l ss. fst (query build self q) = Inr (success_result q out l ss)
         \<and> length l \<le> length ss)"
proof (cases "fst (create_agent build self)")
  case (Inl e)
  then have "fst (query build self q) = Inr (error_result q e)"
    by (auto simp add: query_def query_try_def split: prod.splits)
  then show ?thesis by blast
next
  case (Inr a)
  show ?thesis
  proof (cases "a q")
    case (Inl e)
    from query_invoke_raises [OF Inr Inl] show ?thesis by blast
  next
    case v: (Inr v)
    show ?thesis
    proof (cases "read_result v")
      case (Inl e)
      from query_read_raises [OF Inr v Inl] show ?thesis by blast
    next
      case read: (Inr r)
      obtain out l ss where r: "r = (out, l, ss)" by (cases r)
      from query_invoke_returns [OF Inr v read [unfolded r]] read_result_length [OF read [unfolded r]]
      show ?thesis by blast
    qed
  qed
qed

lemma success_result_fields:
  "success_result q out l ss ''status'' = Some (PyStr ''success'')"
  "success_result q out l ss ''question'' = Some (PyStr q)"
  "success_result q out l ss ''answer'' = Some (PyStr out)"
  "success_result q out l ss ''sql_queries'' = Some (PyList l)"
  "success_result q out l ss ''steps_count'' = Some (PyInt (int (length ss)))"
  "success_result q out l ss ''error'' = None"
  by (simp_all add: success_result_def)

lemma error_result_fields:
  "error_result q e ''status'' = Some (PyStr ''error'')"
  "error_result q e ''question'' = Some (PyStr q)"
  "error_result q e ''error'' = Some (PyStr (message e))"
  "error_result q e ''answer'' = None"
  "error_result q e ''sql_queries'' = None"
  "error_result q e ''steps_count'' = None"
  by (simp_all add: error_result_def)

lemma create_agent_fresh: "fst (create_agent (Inr a) \<lparr>agent = None\<rparr>) = Inr a"
  by (simp add: create_agent_def)

lemma extract_three_steps:
  "extract_sql [list_tables_step, schema_step, query_step]
   = Inr [[], ''vehicles'', ''SELECT COUNT(*) FROM vehicles'']"
  by (simp add: extract_sql_def extract_step_def list_tables_step_def schema_step_def
      query_step_def py_lower_def ascii_lower_def)

text \<open>
  C1. The trace extraction does not exclude the schema-listing and table-description
  actions. On the trajectory of a single \<^verbatim>\<open>sql_db_list_tables\<close> step, which executes no
  SQL, it returns that step's input (the empty string) instead of the empty list; on a
  trajectory with one execute action after two other actions it returns three strings
  instead of one. The test \<^verbatim>\<open>'sql' in action.tool.lower()\<close> holds for the name of every
  tool of the toolkit.
\<close>

theorem extract_sql_keeps_list_tables:
  "extract_sql [list_tables_step] = Inr [[]]
   \<and> extract_sql [list_tables_step, schema_step, query_step]
       = Inr [[], ''vehicles'', ''SELECT COUNT(*) FROM vehicles'']"
  by (simp add: extract_sql_def extract_step_def list_tables_step_def schema_step_def
      query_step_def py_lower_def ascii_lower_def)

text \<open>
  C3. \<^verbatim>\<open>query\<close> (in both managers) never raises. When building the agent raises, or when
  the agent's \<^verbatim>\<open>invoke\<close> raises, the result has status \<^verbatim>\<open>error\<close>, carries \<^verbatim>\<open>str(e)\<close> under
  \<^verbatim>\<open>error\<close>, and has no \<^verbatim>\<open>answer\<close>, \<^verbatim>\<open>sql_queries\<close> or \<^verbatim>\<open>steps_count\<close>.
\<close>

theorem query_never_raises:
  "\<not> isl (fst (query build self q)) \<and> \<not> isl (fst (query_aws build self q))
   \<and> ((agent self = None \<and> build = Inl e)
        \<or> (\<exists>a. fst (create_agent build self) = Inr a \<and> a q = Inl e)
      \<longrightarrow> (\<forall>r \<in> {query build self q, query_aws build self q}.
             result_field r ''status'' = Some (PyStr ''error'')
           \<and> result_field r ''error'' = Some (PyStr (message e))
           \<and> result_field r ''answer'' = None
           \<and> result_field r ''sql_queries'' = None
           \<and> result_field r ''steps_count'' = None))"
proof -
  have total: "\<not> isl (fst (query build self q))"
    using query_shape [of build self q] by auto
  have err: "fst (query build self q) = Inr (error_result q e)"
    if "(agent self = None \<and> build = Inl e)
        \<or> (\<exists>a. fst (create_agent build self) = Inr a \<and> a q = Inl e)"
    using that query_build_raises query_invoke_raises by blast
  show ?thesis
    using total err by (auto simp add: query_aws_eq result_field_def error_result_fields)
qed

theorem query_never_raises_witness:
  "result_field (query (Inr failing_agent) \<lparr>agent = None\<rparr> ''How many vehicles?'') ''status''
     = Some (PyStr ''error'')
   \<and> result_field (query (Inr failing_agent) \<lparr>agent = None\<rparr> ''How many vehicles?'') ''error''
     = Some (PyStr ''connection refused'')
   \<and> result_field (query (Inr failing_agent) \<lparr>agent = None\<rparr> ''How many vehicles?'') ''answer''
     = None"
proof -
  have h: "\<exists>a. fst (create_agent (Inr failing_agent) \<lparr>agent = None\<rparr>) = Inr a
             \<and> a ''How many vehicles?'' = Inl (PyException ''connection refused'')"
    by (simp add: create_agent_def failing_agent_def)
  show ?thesis
    using h query_never_raises [of "Inr failing_agent" "\<lparr>agent = None\<rparr>" "''How many vehicles?''"
        "PyException ''connection refused''"]
    by simp
qed

text \<open>
  C4. Every result of \<^verbatim>\<open>query\<close> has status \<^verbatim>\<open>success\<close> or \<^verbatim>\<open>error\<close>. A \<^verbatim>\<open>success\<close> result
  carries an answer string, a list \<^verbatim>\<open>sql_queries\<close> and an integer \<^verbatim>\<open>steps_count\<close>; an
  \<^verbatim>\<open>error\<close> result carries one error string and neither \<^verbatim>\<open>answer\<close> nor \<^verbatim>\<open>sql_queries\<close>.
\<close>

theorem query_result_shape:
  "(result_field (query build self q) ''status'' = Some (PyStr ''success'')
      \<and> (\<exists>a. result_field (query build self q) ''answer'' = Some (PyStr a))
      \<and> (\<exists>l. result_field (query build self q) ''sql_queries'' = Some (PyList l))
      \<and> (\<exists>n. result_field (query build self q) ''steps_count'' = Some (PyInt n))
      \<and> result_field (query build self q) ''error'' = None)
   \<or> (result_field (query build self q) ''status'' = Some (PyStr ''error'')
      \<and> (\<exists>m. result_field (query build self q) ''error'' = Some (PyStr m))
      \<and> result_field (query build self q) ''answer'' = None
      \<and> result_field (query build self q) ''sql_queries'' = None
      \<and> result_field (query build self q) ''steps_count'' = None)"
  using query_shape [of build self q]
  by (auto simp add: result_field_def success_result_fields error_result_fields)

text \<open>
  C9. On every \<^verbatim>\<open>success\<close> result of \<^verbatim>\<open>query\<close>, the list \<^verbatim>\<open>sql_queries\<close> is no longer than
  \<^verbatim>\<open>steps_count\<close>.
\<close>

theorem sql_queries_at_most_steps_count:
  "result_field (query build self q) ''status'' = Some (PyStr ''success'') \<Longrightarrow>
   \<exists>l n. result_field (query build self q) ''sql_queries'' = Some (PyList l)
        \<and> result_field (query build self q) ''steps_count'' = Some (PyInt n)
        \<and> int (length l) \<le> n"
  using query_shape [of build self q]
  by (auto simp add: result_field_def success_result_fields error_result_fields)

theorem sql_queries_at_most_steps_count_witness:
  "\<exists>l n. result_field (query (Inr counting_agent) \<lparr>agent = None\<rparr> ''How many vehicles?'')
            ''sql_queries'' = Some (PyList l)
        \<and> result_field (query (Inr counting_agent) \<lparr>agent = None\<rparr> ''How many vehicles?'')
            ''steps_count'' = Some (PyInt n)
        \<and> int (length l) \<le> n \<and> n = 3"
proof -
  let ?res = "\<lparr>agent_output = Some ''There are 42 vehicles.'',
               intermediate_steps = Some (StepList [list_tables_step, schema_step, query_step])\<rparr>"
  have invoke: "counting_agent ''How many vehicles?'' = Inr (Dict ?res)"
    by (simp add: counting_agent_def)
  have read: "read_result (Dict ?res)
              = Inr (''There are 42 vehicles.'',
                     [[], ''vehicles'', ''SELECT COUNT(*) FROM vehicles''],
                     [list_tables_step, schema_step, query_step])"
    by (simp add: read_result_def get_intermediate_steps_def get_output_def
        extract_three_steps)
  have run: "fst (query (Inr counting_agent) \<lparr>agent = None\<rparr> ''How many vehicles?'')
             = Inr (success_result ''How many vehicles?'' ''There are 42 vehicles.''
                      [[], ''vehicles'', ''SELECT COUNT(*) FROM vehicles'']
                      [list_tables_step, schema_step, query_step])"
    by (rule query_invoke_returns [where a = counting_agent, OF create_agent_fresh invoke read])
  have h: "result_field (query (Inr counting_agent) \<lparr>agent = None\<rparr> ''How many vehicles?'')
             ''status'' = Some (PyStr ''success'')"
    by (simp add: result_field_def run success_result_fields)
  have n: "result_field (query (Inr counting_agent) \<lparr>agent = None\<rparr> ''How many vehicles?'')
             ''steps_count'' = Some (PyInt 3)"
    by (simp add: result_field_def run success_result_fields)
  show ?thesis
    using sql_queries_at_most_steps_count [OF h] n by auto
qed

text \<open>
  C10. Every result of \<^verbatim>\<open>query\<close> (in both managers), \<^verbatim>\<open>success\<close> or \<^verbatim>\<open>error\<close>, has the
  key \<^verbatim>\<open>question\<close> holding the question as it was passed in.
\<close>

theorem query_echoes_question:
  "result_field (query build self q) ''question'' = Some (PyStr q)
   \<and> result_field (query_aws build self q) ''question'' = Some (PyStr q)"
  using query_shape [of build self q]
  by (auto simp add: query_aws_eq result_field_def success_result_fields error_result_fields)


section \<open>The database wrappers\<close>

lemma get_database_keeps:
  "get_database connect self = (Inr d, self') \<Longrightarrow> get_database connect self' = (Inr d, self')"
  by (auto simp add: get_database_def split: option.splits sum.splits)

lemma get_database_fails:
  "get_database connect self = (Inl e, self') \<Longrightarrow> self' = self"
  by (auto simp add: get_database_def split: option.splits sum.splits)

lemma get_iam_credentials_again:
  assumes "get_iam_credentials env self = (r, self')" and "db_aws self = None"
  shows "get_iam_credentials env self' = (r, self') \<and> db_aws self' = None"
proof (cases "redshift_client_of self")
  case (Some c)
  with assms have "self' = self"
    by (cases "get_cluster_credentials c")
       (auto simp add: get_iam_credentials_def split: option.splits)
  with assms show ?thesis by simp
next
  case None
  show ?thesis
  proof (cases "boto3_client env")
    case (Inl e)
    with None assms show ?thesis by (auto simp add: get_iam_credentials_def)
  next
    case (Inr c)
    with None assms have s: "self' = self\<lparr>redshift_client_of := Some c\<rparr>"
      by (cases "get_cluster_credentials c")
         (auto simp add: get_iam_credentials_def split: option.splits)
    have same: "fst (get_iam_credentials env (self\<lparr>redshift_client_of := Some c\<rparr>))
                = fst (get_iam_credentials env self)"
      using None Inr
      by (cases "get_cluster_credentials c")
         (simp_all add: get_iam_credentials_def split: option.splits)
    have keep: "snd (get_iam_credentials env (self\<lparr>redshift_client_of := Some c\<rparr>))
                = self\<lparr>redshift_client_of := Some c\<rparr>"
      by (cases "get_cluster_credentials c")
         (simp_all add: get_iam_credentials_def split: option.splits)
    from assms have "fst (get_iam_credentials env self) = r" by simp
    with same keep s assms(2) show ?thesis
      by (simp add: prod_eq_iff)
  qed
qed

lemma build_connection_uri_again:
  "build_connection_uri env self = (r, self') \<Longrightarrow> db_aws self = None \<Longrightarrow>
   build_connection_uri env self' = (r, self') \<and> db_aws self' = None"
  by (auto simp add: build_connection_uri_def split: if_splits prod.splits sum.splits
      dest: get_iam_credentials_again)

lemma build_connection_uri_update:
  "build_connection_uri env (self\<lparr>connection_uri := u\<rparr>)
   = (fst (build_connection_uri env self), (snd (build_connection_uri env self))\<lparr>connection_uri := u\<rparr>)"
  by (simp add: build_connection_uri_def get_iam_credentials_def
      split: option.splits sum.splits)

lemma get_database_aws_again:
  "fst (get_database_aws env (snd (get_database_aws env self))) = fst (get_database_aws env self)
   \<and> snd (get_database_aws env (snd (get_database_aws env self))) = snd (get_database_aws env self)"
proof (cases "db_aws self")
  case (Some d)
  then show ?thesis by (simp add: get_database_aws_def)
next
  case None
  obtain r self1 where b: "build_connection_uri env self = (r, self1)"
    by (cases "build_connection_uri env self")
  from build_connection_uri_again [OF b None]
  have b1: "build_connection_uri env self1 = (r, self1)" and n1: "db_aws self1 = None"
    by simp_all
  show ?thesis
  proof (cases r)
    case (Inl e)
    with None b b1 n1 show ?thesis by (simp add: get_database_aws_def)
  next
    case (Inr uri)
    show ?thesis
    proof (cases "connect_uri env uri")
      case (Inl e)
      with None b b1 n1 Inr show ?thesis
        by (simp add: get_database_aws_def build_connection_uri_update)
    next
      case (Inr d)
      with None b \<open>r = Inr uri\<close> show ?thesis by (simp add: get_database_aws_def)
    qed
  qed
qed



text \<open>
  C7. Calling \<^verbatim>\<open>get_table_info\<close> a second time with the same table list, on the wrapper as
  the first call left it and with the warehouse unchanged, yields the same text, in
  \<^verbatim>\<open>BigQueryDatabase\<close> and in \<^verbatim>\<open>RedshiftDatabase\<close>.
\<close>

theorem get_table_info_idempotent:
  "fst (get_table_info connect (snd (get_table_info connect self tables)) tables)
     = fst (get_table_info connect self tables)
   \<and> fst (get_table_info_aws env (snd (get_table_info_aws env self_aws tables)) tables)
     = fst (get_table_info_aws env self_aws tables)"
proof -
  have bq: "fst (get_table_info connect (snd (get_table_info connect self tables)) tables)
     = fst (get_table_info connect self tables)"
  proof (cases "get_database connect self")
    case (Pair r self')
    show ?thesis
    proof (cases r)
      case (Inl e)
      with Pair get_database_fails [of connect self e self'] show ?thesis
        by (simp add: get_table_info_def)
    next
      case (Inr d)
      with Pair get_database_keeps [of connect self d self'] show ?thesis
        by (simp add: get_table_info_def split: sum.splits)
    qed
  qed
  have snd_aws: "snd (get_table_info_aws env self_aws tables) = snd (get_database_aws env self_aws)"
    by (cases "get_database_aws env self_aws")
       (simp add: get_table_info_aws_def split: sum.splits)
  have fst_aws: "fst (get_table_info_aws env s tables)
      = (case fst (get_database_aws env s) of
           Inl e \<Rightarrow> Inr (''Error retrieving table information: '' @ message e)
         | Inr d \<Rightarrow>
             (case get_table_info_of d tables of
                Inl e \<Rightarrow> Inr (''Error retrieving table information: '' @ message e)
              | Inr text \<Rightarrow> Inr text))" for s
    by (cases "get_database_aws env s")
       (simp add: get_table_info_aws_def split: sum.splits)
  have rs: "fst (get_table_info_aws env (snd (get_table_info_aws env self_aws tables)) tables)
     = fst (get_table_info_aws env self_aws tables)"
    by (simp add: snd_aws fst_aws get_database_aws_again)
  from bq rs show ?thesis by simp
qed

section \<open>Configuration defaults\<close>

lemma py_int_defaults:
  "py_int ''15'' = Inr 15" "py_int ''100'' = Inr 100" "py_int ''10'' = Inr 10"
  by (simp_all add: py_int_def py_isspace_def digit_value_def in_digit_run_def)

text \<open>
  C8. When \<^verbatim>\<open>SQL_AGENT_MAX_ITERATIONS\<close>, \<^verbatim>\<open>SQL_AGENT_MAX_EXECUTION_TIME\<close> and
  \<^verbatim>\<open>SQL_TOP_K_RESULTS\<close> are not set in the environment, the attributes of that name are 15,
  100 and 10, in \<^verbatim>\<open>Config\<close> and in \<^verbatim>\<open>ConfigAWS\<close> alike.
\<close>

theorem config_defaults:
  "(env ''SQL_AGENT_MAX_ITERATIONS'' = None \<longrightarrow>
      SQL_AGENT_MAX_ITERATIONS env = Inr 15 \<and> SQL_AGENT_MAX_ITERATIONS_aws env = Inr 15)
   \<and> (env ''SQL_AGENT_MAX_EXECUTION_TIME'' = None \<longrightarrow>
      SQL_AGENT_MAX_EXECUTION_TIME env = Inr 100 \<and> SQL_AGENT_MAX_EXECUTION_TIME_aws env = Inr 100)
   \<and> (env ''SQL_TOP_K_RESULTS'' = None \<longrightarrow>
      SQL_TOP_K_RESULTS env = Inr 10 \<and> SQL_TOP_K_RESULTS_aws env = Inr 10)"
  by (simp add: SQL_AGENT_MAX_ITERATIONS_def SQL_AGENT_MAX_ITERATIONS_aws_def
      SQL_AGENT_MAX_EXECUTION_TIME_def SQL_AGENT_MAX_EXECUTION_TIME_aws_def
      SQL_TOP_K_RESULTS_def SQL_TOP_K_RESULTS_aws_def getenv_def py_int_defaults)

theorem config_defaults_witness:
  "SQL_AGENT_MAX_ITERATIONS [''GCP_PROJECT_ID'' \<mapsto> ''demo''] = Inr 15
   \<and> SQL_AGENT_MAX_ITERATIONS_aws [''GCP_PROJECT_ID'' \<mapsto> ''demo''] = Inr 15
   \<and> SQL_AGENT_MAX_EXECUTION_TIME [''GCP_PROJECT_ID'' \<mapsto> ''demo''] = Inr 100
   \<and> SQL_AGENT_MAX_EXECUTION_TIME_aws [''GCP_PROJECT_ID'' \<mapsto> ''demo''] = Inr 100
   \<and> SQL_TOP_K_RESULTS [''GCP_PROJECT_ID'' \<mapsto> ''demo''] = Inr 10
   \<and> SQL_TOP_K_RESULTS_aws [''GCP_PROJECT_ID'' \<mapsto> ''demo''] = Inr 10"
proof -
  have h1: "[''GCP_PROJECT_ID'' \<mapsto> ''demo''] ''SQL_AGENT_MAX_ITERATIONS'' = None"
    and h2: "[''GCP_PROJECT_ID'' \<mapsto> ''demo''] ''SQL_AGENT_MAX_EXECUTION_TIME'' = None"
    and h3: "[''GCP_PROJECT_ID'' \<mapsto> ''demo''] ''SQL_TOP_K_RESULTS'' = None"
    by simp_all
  show ?thesis
    using h1 h2 h3 config_defaults [of "[''GCP_PROJECT_ID'' \<mapsto> ''demo'']"] by blast
qed


section \<open>The step budget\<close>

lemma reasoning_loop_bound:
  "reasoning_loop cfg env q taken = Inr t \<Longrightarrow> int (length taken) \<le> max_iterations cfg \<Longrightarrow>
   int (length (steps t)) \<le> max_iterations cfg
   \<and> (outcome t = Aborted StepLimit \<longrightarrow> int (length (steps t)) = max_iterations cfg)
   \<and> (outcome t = Aborted TimeLimit \<longrightarrow> int (length (steps t)) < max_iterations cfg)"
proof (induction cfg env q taken arbitrary: t rule: reasoning_loop.induct)
  case (1 cfg env question taken)
  note unfold = reasoning_loop.simps [of cfg env question taken]
  show ?case
  proof (cases "max_iterations cfg \<le> int (length taken)")
    case True
    with "1.prems" show ?thesis by (auto simp add: unfold)
  next
    case more: False
    show ?thesis
    proof (cases "max_execution_time cfg \<le> elapsed env taken")
      case True
      with more "1.prems" show ?thesis by (auto simp add: unfold)
    next
      case time: False
      let ?prompt = "build_prompt env (briefing env) (list_actions (catalog env)) taken question"
      from more time "1.prems"(1) obtain reply where c: "complete env ?prompt = Inr reply"
        by (cases "complete env ?prompt") (simp_all add: unfold)
      show ?thesis
      proof (cases "parse env reply")
        case (ProposeAction th name arg)
        let ?next = "taken @ [\<lparr>thought = th, action = Some (name, arg),
                       observation = (case invoke (catalog env) name arg of
                                        Inl e \<Rightarrow> message e | Inr obs \<Rightarrow> obs)\<rparr>]"
        from more time c ProposeAction "1.prems"(1)
        have run: "reasoning_loop cfg env question ?next = Inr t"
          by (simp add: unfold)
        from more have len: "int (length ?next) \<le> max_iterations cfg" by simp
        from "1.IH"(1) [OF more time c ProposeAction run len] show ?thesis .
      next
        case (FinalAnswer a)
        with more time c "1.prems" show ?thesis by (auto simp add: unfold)
      next
        case Unparseable
        let ?next = "taken @ [\<lparr>thought = None, action = None,
                       observation = corrective_instruction (catalog env)\<rparr>]"
        from more time c Unparseable "1.prems"(1)
        have run: "reasoning_loop cfg env question ?next = Inr t"
          by (simp add: unfold)
        from more have len: "int (length ?next) \<le> max_iterations cfg" by simp
        from "1.IH"(2) [OF more time c Unparseable run len] show ?thesis .
      qed
    qed
  qed
qed

lemma reasoning_loop_negative:
  "max_iterations cfg \<le> 0 \<Longrightarrow>
   reasoning_loop cfg env q [] = Inr \<lparr>steps = [], outcome = Aborted StepLimit\<rparr>"
  by simp

lemma scenario_c:
  "reasoning_loop three_steps invalid_action_env q []
   = Inr \<lparr>steps = [invalid_step, invalid_step, invalid_step], outcome = Aborted StepLimit\<rparr>"
  by (simp add: three_steps_def invalid_action_env_def invoke_def invalid_step_def)

lemma extract_to_step: "\<exists>l. extract_sql (map to_step xs) = Inr l"
proof -
  have "\<not> isl (extract_step [] (to_step x))" for x
    by (simp add: extract_step_def to_step_def split: option.splits prod.splits)
  then have "\<not> isl (extract_loop [] (map to_step xs))"
    by (simp add: extract_loop_raises)
  then show ?thesis
    by (cases "extract_loop [] (map to_step xs)") (simp_all add: extract_sql_def)
qed

lemma query_with_loop:
  "fst (create_agent build self) = Inr (loop_executor cfg env) \<Longrightarrow>
   reasoning_loop cfg env q [] = Inr t \<Longrightarrow>
   \<exists>l. fst (query build self q)
       = Inr (success_result q (answer_text env t) l (map to_step (steps t)))"
proof -
  assume agent: "fst (create_agent build self) = Inr (loop_executor cfg env)"
    and run: "reasoning_loop cfg env q [] = Inr t"
  let ?res = "\<lparr>agent_output = Some (answer_text env t),
               intermediate_steps = Some (StepList (map to_step (steps t)))\<rparr>"
  from run have invoke: "loop_executor cfg env q = Inr (Dict ?res)"
    by (simp add: loop_executor_def)
  from extract_to_step [of "steps t"] obtain l
    where l: "extract_sql (map to_step (steps t)) = Inr l"
    by auto
  then have read: "read_result (Dict ?res) = Inr (answer_text env t, l, map to_step (steps t))"
    by (simp add: read_result_def get_intermediate_steps_def get_output_def)
  from query_invoke_returns [where a = "loop_executor cfg env", OF agent invoke read]
  show ?thesis by blast
qed

lemma query_with_loop_raises:
  "fst (create_agent build self) = Inr (loop_executor cfg env) \<Longrightarrow>
   reasoning_loop cfg env q [] = Inl e \<Longrightarrow>
   fst (query build self q) = Inr (error_result q e)"
  by (rule query_invoke_raises [where a = "loop_executor cfg env"])
     (simp_all add: loop_executor_def)

lemma query_negative_budget:
  "fst (create_agent build self) = Inr (loop_executor cfg env) \<Longrightarrow>
   max_iterations cfg < 0 \<Longrightarrow>
   result_field (query build self q) ''steps_count'' = Some (PyInt 0)"
proof -
  assume agent: "fst (create_agent build self) = Inr (loop_executor cfg env)"
    and negative: "max_iterations cfg < 0"
  then have "reasoning_loop cfg env q [] = Inr \<lparr>steps = [], outcome = Aborted StepLimit\<rparr>"
    by (simp add: reasoning_loop_negative)
  from query_with_loop [OF agent this] show ?thesis
    by (auto simp add: result_field_def success_result_fields)
qed

text \<open>
  C6 fails as stated: with the step budget configured as \<open>- 1\<close> the loop takes no step,
  and \<^verbatim>\<open>query\<close> reports a \<^verbatim>\<open>steps_count\<close> of 0, which is above the configured budget.
\<close>

theorem steps_count_above_negative_budget:
  "result_field
     (query (Inr (loop_executor negative_budget invalid_action_env)) \<lparr>agent = None\<rparr>
        ''Total revenue in 2024'') ''steps_count'' = Some (PyInt 0)
   \<and> max_iterations negative_budget = - 1"
proof -
  have "max_iterations negative_budget < 0" by (simp add: negative_budget_def)
  from query_negative_budget [OF create_agent_fresh this]
  show ?thesis by (simp add: negative_budget_def)
qed

text \<open>
  C6, amended. When the configured step budget is not negative, every result of \<^verbatim>\<open>query\<close>
  (in both managers) whose agent is the reasoning loop under that budget reports a
  \<^verbatim>\<open>steps_count\<close> of at most the budget; when the budget is negative, the loop takes no
  step and the \<^verbatim>\<open>steps_count\<close> reported is 0.
\<close>

theorem steps_count_within_budget:
  "fst (create_agent build self) = Inr (loop_executor cfg env) \<Longrightarrow>
   (0 \<le> max_iterations cfg \<longrightarrow>
      (result_field (query build self q) ''steps_count'' = Some (PyInt n) \<longrightarrow>
         n \<le> max_iterations cfg)
      \<and> (result_field (query_aws build self q) ''steps_count'' = Some (PyInt n) \<longrightarrow>
         n \<le> max_iterations cfg))
   \<and> (max_iterations cfg < 0 \<longrightarrow>
      result_field (query build self q) ''steps_count'' = Some (PyInt 0)
      \<and> result_field (query_aws build self q) ''steps_count'' = Some (PyInt 0))"
proof -
  assume agent: "fst (create_agent build self) = Inr (loop_executor cfg env)"
  have bound: "n \<le> max_iterations cfg"
    if budget: "0 \<le> max_iterations cfg"
      and count: "result_field (query build self q) ''steps_count'' = Some (PyInt n)"
  proof (cases "reasoning_loop cfg env q []")
    case (Inl e)
    from query_with_loop_raises [OF agent Inl] count show ?thesis
      by (simp add: result_field_def error_result_fields)
  next
    case (Inr t)
    from budget have "int (length ([] :: loop_step list)) \<le> max_iterations cfg" by simp
    from reasoning_loop_bound [OF Inr this]
    have "int (length (steps t)) \<le> max_iterations cfg" by simp
    with query_with_loop [OF agent Inr] count show ?thesis
      by (auto simp add: result_field_def success_result_fields)
  qed
  have zero: "result_field (query build self q) ''steps_count'' = Some (PyInt 0)"
    if "max_iterations cfg < 0"
    using agent that by (rule query_negative_budget)
  from bound zero show ?thesis by (simp add: query_aws_eq)
qed

theorem steps_count_within_budget_witness:
  "result_field
     (query (Inr (loop_executor three_steps invalid_action_env)) \<lparr>agent = None\<rparr>
        ''Total revenue in 2024'') ''steps_count'' = Some (PyInt 3)
   \<and> (3::int) \<le> max_iterations three_steps
   \<and> max_iterations negative_budget < 0
   \<and> result_field
     (query (Inr (loop_executor negative_budget invalid_action_env)) \<lparr>agent = None\<rparr>
        ''Total revenue in 2024'') ''steps_count'' = Some (PyInt 0)"
proof -
  have count: "result_field
     (query (Inr (loop_executor three_steps invalid_action_env)) \<lparr>agent = None\<rparr>
        ''Total revenue in 2024'') ''steps_count'' = Some (PyInt 3)"
    using query_with_loop [OF create_agent_fresh scenario_c [of "''Total revenue in 2024''"]]
    by (auto simp add: result_field_def success_result_fields)
  have budget: "0 \<le> max_iterations three_steps" by (simp add: three_steps_def)
  have negative: "max_iterations negative_budget < 0" by (simp add: negative_budget_def)
  from steps_count_within_budget [OF create_agent_fresh, of three_steps invalid_action_env
      "''Total revenue in 2024''" 3] count budget
  have first: "(3::int) \<le> max_iterations three_steps" by simp
  from steps_count_within_budget [OF create_agent_fresh, of negative_budget invalid_action_env
      "''Total revenue in 2024''" 0] negative
  have second: "result_field
     (query (Inr (loop_executor negative_budget invalid_action_env)) \<lparr>agent = None\<rparr>
        ''Total revenue in 2024'') ''steps_count'' = Some (PyInt 0)" by simp
  from count first negative second show ?thesis by simp
qed


section \<open>Budget exhaustion and the status of the result\<close>

text \<open>The steps on which the loop over the steps raises: an object without a length, and
  a sequence of at least two items whose first item has a \<^verbatim>\<open>tool\<close> that is not a string.\<close>

lemma extract_step_raises_iff:
  "isl (extract_step acc s)
   \<longleftrightarrow> (\<exists>ty. s = Unsized ty)
       \<or> (\<exists>items a ty. s = Sized items \<and> 2 \<le> length items \<and> items ! 0 = ActionItem a
             \<and> tool a = OtherAttr ty)"
  by (cases s)
     (auto simp add: extract_step_def split: step_item.splits attribute.splits option.splits)

text \<open>The results on whose reading \<^verbatim>\<open>query\<close> raises: an object that is not a dictionary,
  steps that cannot be iterated, and a list holding a step on which the loop raises.\<close>

lemma read_result_raises_iff:
  "isl (read_result v)
   \<longleftrightarrow> (\<exists>ty. v = NotDict ty)
       \<or> (\<exists>res ty. v = Dict res \<and> intermediate_steps res = Some (NotIterable ty))
       \<or> (\<exists>res ss. v = Dict res \<and> intermediate_steps res = Some (StepList ss)
             \<and> (\<exists>s \<in> set ss. isl (extract_step [] s)))"
proof (cases v)
  case (NotDict ty)
  then show ?thesis by (simp add: read_result_def)
next
  case (Dict res)
  show ?thesis
  proof (cases "intermediate_steps res")
    case None
    with Dict show ?thesis
      by (simp add: read_result_def get_intermediate_steps_def extract_sql_Nil)
  next
    case (Some w)
    show ?thesis
    proof (cases w)
      case (NotIterable ty)
      with Dict Some show ?thesis by (simp add: read_result_def get_intermediate_steps_def)
    next
      case (StepList ss)
      have "isl (read_result v) \<longleftrightarrow> isl (extract_loop [] ss)"
        using Dict Some StepList
        by (simp add: read_result_def get_intermediate_steps_def extract_sql_def
            split: sum.splits)
      with Dict Some StepList show ?thesis by (simp add: extract_loop_raises)
    qed
  qed
qed









end
